theory Spec2Isabelle
  imports Complex_Main
begin

section \<open>Constants and macros declared outside \<^verbatim>\<open>uniques.cc\<close>\<close>

text \<open>
  \<^verbatim>\<open>sql/uniques.cc\<close> uses macros and types of headers that are not part of the
  sources at hand. The spec names them without giving values (``io block size'',
  ``fan-in limit'', ``high-fan-in threshold'', ``comparisons per seek-equivalent
  unit'', ``per-element overhead''); the values below are those of the headers of the
  server this file belongs to.

  The file casts a \<^verbatim>\<open>uint*\<close> to \<^verbatim>\<open>uint\<close>, so it is a program for a platform with
  32-bit pointers, where \<^verbatim>\<open>uint\<close>, \<^verbatim>\<open>ulong\<close> and \<^verbatim>\<open>size_t\<close> are 32 bits wide. Unsigned
  values are modelled as \<open>nat\<close>, with \<open>mod 2 ^ 32\<close> written where an unsigned sum or
  product can wrap; \<^verbatim>\<open>double\<close> arithmetic is modelled by the real numbers.
\<close>

definition IO_SIZE :: nat where
  \<comment> \<open>Modelled from the spec: the io block size, macro \<^verbatim>\<open>IO_SIZE\<close> of \<^verbatim>\<open>my_global.h\<close>.\<close>
  "IO_SIZE = 4096"

definition MERGEBUFF :: nat where
  \<comment> \<open>Modelled from the spec: the fan-in limit, macro \<^verbatim>\<open>MERGEBUFF\<close> of \<^verbatim>\<open>sql_sort.h\<close>.\<close>
  "MERGEBUFF = 7"

definition MERGEBUFF2 :: nat where
  \<comment> \<open>Modelled from the spec: the high-fan-in threshold, macro \<^verbatim>\<open>MERGEBUFF2\<close> of
      \<^verbatim>\<open>sql_sort.h\<close>.\<close>
  "MERGEBUFF2 = 15"

definition TIME_FOR_COMPARE_ROWID :: real where
  \<comment> \<open>Modelled from the spec: the comparisons per seek-equivalent unit, macro
      \<^verbatim>\<open>TIME_FOR_COMPARE_ROWID\<close> of \<^verbatim>\<open>mysql_priv.h\<close>, which is \<^verbatim>\<open>TIME_FOR_COMPARE*2\<close>.\<close>
  "TIME_FOR_COMPARE_ROWID = 10"

definition DISK_SEEK_BASE_COST :: real where
  \<comment> \<open>Modelled from the spec: the cost of one seek-equivalent unit of disk access, macro
      \<^verbatim>\<open>DISK_SEEK_BASE_COST\<close> of \<^verbatim>\<open>mysql_priv.h\<close>. No proof below uses its value.\<close>
  "DISK_SEEK_BASE_COST = 1 / 2"

definition sizeof_TREE_ELEMENT :: nat where
  \<comment> \<open>Modelled from the spec: the container's per-node bookkeeping cost,
      \<^verbatim>\<open>sizeof(TREE_ELEMENT)\<close> of \<^verbatim>\<open>my_tree.h\<close>: two pointers and one 32-bit word.\<close>
  "sizeof_TREE_ELEMENT = 12"

definition sizeof_uint :: nat where
  "sizeof_uint = 4"

definition ALIGN_SIZE :: "nat \<Rightarrow> nat" where
  \<comment> \<open>Modelled from the spec: macro \<^verbatim>\<open>ALIGN_SIZE\<close> of \<^verbatim>\<open>my_global.h\<close>, which rounds up to
      a multiple of \<^verbatim>\<open>sizeof(double)\<close>: \<^verbatim>\<open>(A + 7) & ~7\<close> in 32-bit unsigned arithmetic, so
      the sum wraps.\<close>
  "ALIGN_SIZE a = (a + 7) mod 2 ^ 32 div 8 * 8"

section \<open>The cost estimator\<close>

subsection \<open>\<^verbatim>\<open>log2_n_fact\<close>\<close>

definition log2_n_fact :: "real \<Rightarrow> real" where
  "log2_n_fact x = (ln (2 * pi * x) / 2 + x * ln (x / exp 1)) / ln 2"

subsection \<open>\<^verbatim>\<open>get_merge_buffers_cost\<close>\<close>

text \<open>
  The array \<^verbatim>\<open>buff_elems\<close> is a list; \<open>first_ix\<close> and \<open>last_ix\<close> are the indices the
  pointers \<^verbatim>\<open>first\<close> and \<^verbatim>\<open>last\<close> point at. The function returns its cost and the array after the write
  \<^verbatim>\<open>*last= total_buf_elems\<close>. The parameter \<^verbatim>\<open>output_buff\<close> is never used by the
  function body, so the model does not take it.
\<close>

definition get_merge_buffers_cost :: "nat list \<Rightarrow> nat \<Rightarrow> nat \<Rightarrow> nat \<Rightarrow> real \<times> nat list" where
  "get_merge_buffers_cost buff_elems elem_size first_ix last_ix =
     (let total_buf_elems = sum_list (take (last_ix + 1 - first_ix) (drop first_ix buff_elems)) mod 2 ^ 32;
          buff_elems' = buff_elems[last_ix := total_buf_elems];
          n_buffers = int last_ix - int first_ix + 1
      in (2 * (real total_buf_elems * real elem_size) / real IO_SIZE
            + real total_buf_elems * ln (real_of_int n_buffers) / (TIME_FOR_COMPARE_ROWID * ln 2),
          buff_elems'))"

subsection \<open>\<^verbatim>\<open>get_merge_many_buffs_cost\<close>\<close>

text \<open>
  The inner \<^verbatim>\<open>for\<close> loop of one pass. The state is the loop index \<^verbatim>\<open>i\<close>, the array, the
  pointer \<^verbatim>\<open>lastbuff\<close> (its numeric value: it starts as the null pointer and each
  \<^verbatim>\<open>lastbuff++\<close> adds \<^verbatim>\<open>sizeof(uint)\<close>) and the accumulated cost.
\<close>

function merge_groups :: "nat \<Rightarrow> nat \<Rightarrow> nat \<Rightarrow> nat list \<Rightarrow> nat \<Rightarrow> real \<Rightarrow> nat \<times> nat list \<times> nat \<times> real" where
  "merge_groups elem_size maxbuffer i buff_elems lastbuff total_cost =
     (if int i \<le> int maxbuffer - int (MERGEBUFF * 3 div 2) then
        (let (c, buff_elems') = get_merge_buffers_cost buff_elems elem_size i (i + MERGEBUFF - 1)
         in merge_groups elem_size maxbuffer (i + MERGEBUFF) buff_elems'
              (lastbuff + sizeof_uint) (total_cost + c))
      else (i, buff_elems, lastbuff, total_cost))"
  by pat_completeness auto
termination
  by (relation "measure (\<lambda>(e, m, i, b, l, t). m + 1 - i)") (auto simp: MERGEBUFF_def)

text \<open>
  One pass of the \<^verbatim>\<open>while\<close> loop: the groups of \<^verbatim>\<open>MERGEBUFF\<close>, the last group up to
  \<^verbatim>\<open>maxbuffer\<close>, and the update \<^verbatim>\<open>maxbuffer= (uint)lastbuff-1\<close>.
\<close>

definition merge_pass :: "nat \<Rightarrow> nat \<Rightarrow> nat list \<Rightarrow> real \<Rightarrow> nat \<times> nat list \<times> real" where
  "merge_pass elem_size maxbuffer buff_elems total_cost =
     (let (i, buff1, lastbuff1, cost1) = merge_groups elem_size maxbuffer 0 buff_elems 0 total_cost;
          (c, buff2) = get_merge_buffers_cost buff1 elem_size i maxbuffer;
          lastbuff2 = lastbuff1 + sizeof_uint
      in (lastbuff2 - 1, buff2, cost1 + c))"

lemma merge_groups_lastbuff:
  "merge_groups e m i b l t = (i', b', l', t') \<Longrightarrow>
     (if i + 10 \<le> m then 7 * (l' - l) \<le> 4 * (m - i - 3) \<and> l \<le> l' else l' = l)"
proof (induction e m i b l t arbitrary: i' b' l' t' rule: merge_groups.induct)
  case (1 e m i b l t)
  show ?case
  proof (cases "i + 10 \<le> m")
    case False
    with "1.prems" show ?thesis
      by (simp add: MERGEBUFF_def)
  next
    case True
    obtain c b1 where g: "get_merge_buffers_cost b e i (i + MERGEBUFF - 1) = (c, b1)"
      by (cases "get_merge_buffers_cost b e i (i + MERGEBUFF - 1)")
    from True have cond: "int i \<le> int m - int (MERGEBUFF * 3 div 2)"
      by (simp add: MERGEBUFF_def)
    from "1.prems" cond g
    have rec: "merge_groups e m (i + MERGEBUFF) b1 (l + sizeof_uint) (t + c) = (i', b', l', t')"
      by (simp del: merge_groups.simps add: merge_groups.simps [of e m i])
    from "1.IH" [OF cond g [symmetric] refl rec]
    have "if i + MERGEBUFF + 10 \<le> m
          then 7 * (l' - (l + sizeof_uint)) \<le> 4 * (m - (i + MERGEBUFF) - 3) \<and> l + sizeof_uint \<le> l'
          else l' = l + sizeof_uint" .
    with True show ?thesis
      by (auto simp: MERGEBUFF_def sizeof_uint_def split: if_splits)
  qed
qed

lemma merge_pass_decreases:
  assumes "MERGEBUFF2 \<le> maxbuffer"
    and "merge_pass e maxbuffer b t = (m', b', t')"
  shows "m' < maxbuffer"
proof -
  obtain i b1 l1 c1 where g: "merge_groups e maxbuffer 0 b 0 t = (i, b1, l1, c1)"
    by (cases "merge_groups e maxbuffer 0 b 0 t")
  from merge_groups_lastbuff [OF g] assms(1)
  have "7 * l1 \<le> 4 * (maxbuffer - 3)"
    by (simp add: MERGEBUFF2_def)
  moreover from assms(2) g have "m' = l1 + sizeof_uint - 1"
    by (auto simp: merge_pass_def split: prod.splits)
  ultimately show ?thesis
    using assms(1) by (simp add: MERGEBUFF2_def sizeof_uint_def)
qed

text \<open>The \<^verbatim>\<open>while (maxbuffer >= MERGEBUFF2)\<close> loop.\<close>

function merge_passes :: "nat \<Rightarrow> nat \<Rightarrow> nat list \<Rightarrow> real \<Rightarrow> nat \<times> nat list \<times> real" where
  "merge_passes elem_size maxbuffer buff_elems total_cost =
     (if maxbuffer \<ge> MERGEBUFF2 then
        (let (maxbuffer', buff_elems', total_cost') = merge_pass elem_size maxbuffer buff_elems total_cost
         in merge_passes elem_size maxbuffer' buff_elems' total_cost')
      else (maxbuffer, buff_elems, total_cost))"
  by pat_completeness auto
termination
proof (relation "measure (\<lambda>(e, m, b, t). m)")
  show "wf (measure (\<lambda>(e, m, b, t). m))"
    by simp
next
  fix elem_size maxbuffer :: nat and buff_elems :: "nat list" and total_cost :: real
    and x :: "nat \<times> nat list \<times> real" and maxbuffer' :: nat and y :: "nat list \<times> real"
    and buff_elems' :: "nat list" and total_cost' :: real
  assume "MERGEBUFF2 \<le> maxbuffer"
    and "x = merge_pass elem_size maxbuffer buff_elems total_cost"
    and "(maxbuffer', y) = x" and "(buff_elems', total_cost') = y"
  then have "merge_pass elem_size maxbuffer buff_elems total_cost = (maxbuffer', buff_elems', total_cost')"
    by simp
  from merge_pass_decreases [OF \<open>MERGEBUFF2 \<le> maxbuffer\<close> this]
  show "((elem_size, maxbuffer', buff_elems', total_cost'),
         (elem_size, maxbuffer, buff_elems, total_cost)) \<in> measure (\<lambda>(e, m, b, t). m)"
    by simp
qed

text \<open>
  The whole function: the initial array (\<^verbatim>\<open>maxbuffer\<close> entries of \<^verbatim>\<open>max_n_elems\<close> and
  one of \<^verbatim>\<open>last_n_elems\<close>), the passes, and the final call. The array has
  \<^verbatim>\<open>maxbuffer + 1\<close> entries of four bytes, so \<^verbatim>\<open>maxbuffer\<close> is below \<open>2 ^ 30\<close> and the
  conversions between \<^verbatim>\<open>uint\<close> and \<^verbatim>\<open>int\<close> keep its value. Every index the function uses
  is at most the current \<^verbatim>\<open>maxbuffer\<close>, which never grows, so every access is within
  the array.
\<close>

definition get_merge_many_buffs_cost :: "nat \<Rightarrow> nat \<Rightarrow> nat \<Rightarrow> nat \<Rightarrow> real" where
  "get_merge_many_buffs_cost maxbuffer max_n_elems last_n_elems elem_size =
     (let buff_elems = replicate maxbuffer max_n_elems @ [last_n_elems];
          (maxbuffer', buff_elems', total_cost) = merge_passes elem_size maxbuffer buff_elems 0;
          (c, buff_elems'') = get_merge_buffers_cost buff_elems' elem_size 0 maxbuffer'
      in total_cost + c)"

subsection \<open>\<^verbatim>\<open>Unique::get_use_cost\<close>\<close>

text \<open>
  The memory one element of the tree takes, \<^verbatim>\<open>ALIGN_SIZE(sizeof(TREE_ELEMENT)+key_size)\<close>.
  The sum is a 32-bit unsigned sum and wraps, as the sum inside \<^verbatim>\<open>ALIGN_SIZE\<close> does: for
  key sizes from \<open>2 ^ 32 - 19\<close> to \<open>2 ^ 32 - 12\<close> the result is 0.
\<close>

definition per_element_overhead :: "nat \<Rightarrow> nat" where
  "per_element_overhead key_size = ALIGN_SIZE ((sizeof_TREE_ELEMENT + key_size) mod 2 ^ 32)"

text \<open>
  \<^verbatim>\<open>max_elements_in_tree\<close>, as \<^verbatim>\<open>get_use_cost\<close> and the constructor compute it. Where the
  overhead is 0 the code divides by zero; the functions that use the quotient say what
  happens then.
\<close>

definition max_elements_in_tree :: "nat \<Rightarrow> nat \<Rightarrow> nat" where
  "max_elements_in_tree key_size max_in_memory_size =
     max_in_memory_size div per_element_overhead key_size"

text \<open>
  The cost of creating the trees: the value of \<^verbatim>\<open>result\<close> after
  \<^verbatim>\<open>result /= TIME_FOR_COMPARE_ROWID\<close>.
\<close>

definition tree_creation_cost :: "nat \<Rightarrow> nat \<Rightarrow> nat \<Rightarrow> real" where
  "tree_creation_cost n_full_trees max_elems last_tree_elems =
     (let result = 2 * log2_n_fact (real last_tree_elems + 1);
          result = (if n_full_trees \<noteq> 0
                    then result + real n_full_trees * log2_n_fact (real max_elems + 1)
                    else result)
      in result / TIME_FOR_COMPARE_ROWID)"

text \<open>
  The cost of writing the trees to disk: the two summands added to \<^verbatim>\<open>result\<close>. The
  quotients \<^verbatim>\<open>key_size*max_elements_in_tree / IO_SIZE\<close> and
  \<^verbatim>\<open>key_size*last_tree_elems / IO_SIZE\<close> are quotients of unsigned integers, so they are
  integer divisions, taken before \<^verbatim>\<open>ceil\<close> is applied. The products are 32-bit unsigned
  products.
\<close>

definition trees_write_cost :: "nat \<Rightarrow> nat \<Rightarrow> nat \<Rightarrow> nat \<Rightarrow> real" where
  "trees_write_cost key_size n_full_trees max_elems last_tree_elems =
     DISK_SEEK_BASE_COST * real n_full_trees
        * real_of_int \<lceil>real (key_size * max_elems mod 2 ^ 32 div IO_SIZE)\<rceil>
     + DISK_SEEK_BASE_COST
        * real_of_int \<lceil>real (key_size * last_tree_elems mod 2 ^ 32 div IO_SIZE)\<rceil>"

text \<open>
  \<^verbatim>\<open>get_use_cost\<close>. A division by zero has no defined result in C++: the model returns
  \<open>None\<close> there, for the division by the overhead and for the divisions by
  \<^verbatim>\<open>max_elements_in_tree\<close>. The scratch buffer is created by \<open>get_merge_many_buffs_cost\<close>; it
  has \<^verbatim>\<open>n_full_trees + 1\<close> entries of four bytes, so \<^verbatim>\<open>n_full_trees\<close>, an \<^verbatim>\<open>int\<close> in the
  code, holds the quotient unchanged.
\<close>

definition get_use_cost :: "nat \<Rightarrow> nat \<Rightarrow> nat \<Rightarrow> real option" where
  "get_use_cost nkeys key_size max_in_memory_size =
     (let max_elems = max_elements_in_tree key_size max_in_memory_size
      in if per_element_overhead key_size = 0 \<or> max_elems = 0 then None
         else
           (let n_full_trees = nkeys div max_elems;
                last_tree_elems = nkeys mod max_elems;
                result = tree_creation_cost n_full_trees max_elems last_tree_elems
            in if n_full_trees = 0 then Some result
               else
                 (let result = result + trees_write_cost key_size n_full_trees max_elems last_tree_elems;
                      merge_cost = get_merge_many_buffs_cost n_full_trees max_elems last_tree_elems key_size
                  in if merge_cost < 0 then Some merge_cost
                     else Some (result + merge_cost
                                 + real_of_int \<lceil>real key_size * real nkeys / real IO_SIZE\<rceil>))))"

section \<open>The class \<^verbatim>\<open>Unique\<close>\<close>

subsection \<open>Data\<close>

text \<open>
  Keys are the elements of a linearly ordered type: the order is the comparator the
  caller supplies, which the constructor hands to \<^verbatim>\<open>init_tree\<close> and to nothing else. Each
  key occupies \<^verbatim>\<open>size\<close> bytes, so a file or a memory region of keys
  is a list of keys, and a byte position is \<^verbatim>\<open>size\<close> times a number of keys.
\<close>

record BUFFPEK =
  file_pos :: nat
  count :: nat

record 'k Unique =
  max_in_memory_size :: nat
  size_u :: nat
  elements :: nat
  max_elements :: nat
  "file" :: "'k list"
  tree :: "'k list"
  file_ptrs :: "BUFFPEK list"
  record_pointers :: "'k list"

text \<open>
  The fields of \<^verbatim>\<open>table->sort\<close> that \<^verbatim>\<open>Unique::get\<close> writes. A pointer is \<open>None\<close> when it is
  null, and otherwise holds the keys of the region or of the cache it points to.
\<close>

record 'k TABLE =
  sort_found_records :: nat
  sort_record_pointers :: "'k list option"
  sort_io_cache :: "'k list option"

text \<open>
  What the world outside the class decides during one call: how many keys the temporary
  file accepts before \<^verbatim>\<open>my_b_write\<close> fails, and which of the allocations and of the other
  fallible calls succeed. \<open>partial_output\<close> is what a failed merge has left in the output
  cache. \<open>merge_le\<close> is the order in which the merge compares two keys: \<^verbatim>\<open>Unique::get\<close>
  passes the merge a zeroed \<^verbatim>\<open>SORTPARAM\<close> in which it sets lengths, counts and buffers,
  and no comparator, so this order is the merge's own and not the caller's.
\<close>

record 'k env =
  disk_room :: nat
  insert_dynamic_ok :: bool
  malloc_record_pointers :: "nat \<Rightarrow> bool"
  malloc_outfile :: bool
  open_cached_file_ok :: bool
  malloc_sort_buffer :: "nat \<Rightarrow> bool"
  merge_many_buff_ok :: bool
  file_reinit_ok :: bool
  merge_buffers_ok :: bool
  outfile_flush_ok :: bool
  outfile_reinit_ok :: bool
  partial_output :: "'k list"
  merge_le :: "'k \<Rightarrow> 'k \<Rightarrow> bool"

subsection \<open>The collaborators\<close>

definition tree_insert :: "'k::linorder \<Rightarrow> 'k list \<Rightarrow> 'k list" where
  \<comment> \<open>Modelled from the spec: \<^verbatim>\<open>tree_insert\<close> of \<^verbatim>\<open>my_tree.c\<close>, the insertion of the ordered
      container, which is not among the sources. The tree is the list of its keys in
      ascending order; a key equal to a present one is not added.\<close>
  "tree_insert key t = (if key \<in> set t then t else insort key t)"

fun tree_walk :: "('k \<Rightarrow> 's \<Rightarrow> bool \<times> 's) \<Rightarrow> 'k list \<Rightarrow> 's \<Rightarrow> bool \<times> 's" where
  \<comment> \<open>Modelled from the spec: \<^verbatim>\<open>tree_walk\<close> of \<^verbatim>\<open>my_tree.c\<close> in the order
      \<^verbatim>\<open>left_root_right\<close>, the ascending traversal of the container. It stops at the
      first key for which the action returns non-zero, and returns that.\<close>
  "tree_walk action [] s = (False, s)"
| "tree_walk action (key # keys) s =
     (case action key s of
        (True, s') \<Rightarrow> (True, s')
      | (False, s') \<Rightarrow> tree_walk action keys s')"

definition read_run :: "nat \<Rightarrow> 'k list \<Rightarrow> BUFFPEK \<Rightarrow> 'k list" where
  \<comment> \<open>The keys of the run a descriptor describes: \<open>count\<close> keys from byte \<open>file_pos\<close> on.\<close>
  "read_run sz f p = take (count p) (drop (file_pos p div sz) f)"

fun merge_two :: "('k \<Rightarrow> 'k \<Rightarrow> bool) \<Rightarrow> 'k list \<Rightarrow> 'k list \<Rightarrow> 'k list" where
  \<comment> \<open>Modelled from the spec: one step of the merge takes the smaller of the keys at the
      heads of two runs, in the order \<open>le\<close> of the merge. Keys behind the heads are not
      looked at: the result is ascending when the runs are.\<close>
  "merge_two le [] ys = ys"
| "merge_two le xs [] = xs"
| "merge_two le (x # xs) (y # ys) =
     (if le x y then x # merge_two le xs (y # ys) else y # merge_two le (x # xs) ys)"

definition external_merge :: "('k \<Rightarrow> 'k \<Rightarrow> bool) \<Rightarrow> nat \<Rightarrow> 'k list \<Rightarrow> BUFFPEK list \<Rightarrow> 'k list" where
  \<comment> \<open>Modelled from the spec: the external multi-way merge (\<^verbatim>\<open>merge_many_buff\<close> followed
      by \<^verbatim>\<open>merge_buffers\<close>, of \<^verbatim>\<open>filesort.cc\<close>, which is not among the sources). It reads
      the runs of the directory, merges them into a single sequence and suppresses
      adjacent duplicate keys. It compares keys by its own order \<open>le\<close>, and it does not
      sort: it relies on each run being ascending in that order.\<close>
  "external_merge le sz f ps = remdups_adj (foldr (merge_two le) (map (read_run sz f) ps) [])"

subsection \<open>The functions of \<^verbatim>\<open>uniques.cc\<close>\<close>

definition my_b_tell :: "'k Unique \<Rightarrow> nat" where
  \<comment> \<open>The write position of the temporary file, in bytes.\<close>
  "my_b_tell u = size_u u * length (file u)"

text \<open>
  \<^verbatim>\<open>unique_write_to_file\<close>: one \<^verbatim>\<open>my_b_write\<close> of \<^verbatim>\<open>size\<close> bytes. The state is the room left
  in the temporary file and the object.
\<close>

definition unique_write_to_file :: "'k \<Rightarrow> nat \<times> 'k Unique \<Rightarrow> bool \<times> (nat \<times> 'k Unique)" where
  "unique_write_to_file key s =
     (case s of (room, unique) \<Rightarrow>
        if room = 0 then (True, (room, unique))
        else (False, (room - 1, unique\<lparr>file := file unique @ [key]\<rparr>)))"

text \<open>
  \<^verbatim>\<open>unique_write_to_ptrs\<close>: the key is copied to where \<^verbatim>\<open>record_pointers\<close> points, and the
  pointer moves on by \<^verbatim>\<open>size\<close> bytes. The field holds the keys written so far.
\<close>

definition unique_write_to_ptrs :: "'k \<Rightarrow> 'k Unique \<Rightarrow> bool \<times> 'k Unique" where
  "unique_write_to_ptrs key unique =
     (False, unique\<lparr>record_pointers := record_pointers unique @ [key]\<rparr>)"

text \<open>
  The constructor. The tree, the array of descriptors and the file start empty. For a
  key size whose overhead is 0 the constructor divides by zero; \<open>max_elements\<close> is 0
  in the model then, and no function below reads the field. The constructor does not
  report a failure of its own calls; such a failure shows as the
  failure of a later call, which the record \<open>env\<close> decides.
\<close>

definition Unique_init :: "nat \<Rightarrow> nat \<Rightarrow> 'k Unique" where
  "Unique_init size_arg max_in_memory_size_arg =
     \<lparr>max_in_memory_size = max_in_memory_size_arg,
      size_u = size_arg,
      elements = 0,
      max_elements = max_elements_in_tree size_arg max_in_memory_size_arg,
      file = [],
      tree = [],
      file_ptrs = [],
      record_pointers = []\<rparr>"

text \<open>
  \<^verbatim>\<open>Unique::flush\<close>. \<^verbatim>\<open>insert_dynamic\<close> is called only when the walk has written every key.
\<close>

definition flush :: "'k env \<Rightarrow> 'k Unique \<Rightarrow> bool \<times> 'k Unique" where
  "flush e u =
     (let u1 = u\<lparr>elements := elements u + length (tree u)\<rparr>;
          file_ptr = \<lparr>file_pos = my_b_tell u1, count = length (tree u1)\<rparr>;
          (failed, room, u2) = tree_walk unique_write_to_file (tree u1) (disk_room e, u1)
      in if failed \<or> \<not> insert_dynamic_ok e then (True, u2)
         else (False, u2\<lparr>file_ptrs := file_ptrs u2 @ [file_ptr], tree := []\<rparr>))"

text \<open>
  \<^verbatim>\<open>Unique::get\<close>. The result is \<open>None\<close> where the code divides by zero
  (\<^verbatim>\<open>max_in_memory_size / sort_param.sort_length\<close> with a key size of 0), and otherwise the
  returned flag (\<open>True\<close> for the return value 1) with the object and the table after the
  call. The two calls of the merge, with the reopening of the file between them, are the
  collaborator \<open>external_merge\<close>, which compares keys by \<open>merge_le\<close>; each of the three
  steps can fail. What the merge does
  to the temporary file and to the array of descriptors is not part of the state
  returned: \<^verbatim>\<open>get\<close> is the last operation on an instance.
\<close>

definition get :: "'k::linorder env \<Rightarrow> 'k Unique \<Rightarrow> 'k TABLE \<Rightarrow> (bool \<times> 'k Unique \<times> 'k TABLE) option" where
  "get e u table =
     (let table1 = table\<lparr>sort_found_records := elements u + length (tree u)\<rparr>
      in if my_b_tell u = 0 \<and> malloc_record_pointers e (size_u u * length (tree u)) then
           (let (r, u1) = tree_walk unique_write_to_ptrs (tree u) (u\<lparr>record_pointers := []\<rparr>)
            in Some (False, u1, table1\<lparr>sort_record_pointers := Some (record_pointers u1)\<rparr>))
         else
           (let table2 = (if my_b_tell u = 0 then table1\<lparr>sort_record_pointers := None\<rparr> else table1);
                u2 = (if my_b_tell u = 0 then u\<lparr>record_pointers := []\<rparr> else u)
            in case flush e u2 of
                 (True, u3) \<Rightarrow> Some (True, u3, table2)
               | (False, u3) \<Rightarrow>
                   if \<not> malloc_outfile e then Some (True, u3, table2\<lparr>sort_io_cache := None\<rparr>)
                   else if \<not> open_cached_file_ok e then Some (True, u3, table2\<lparr>sort_io_cache := Some []\<rparr>)
                   else if size_u u3 = 0 then None
                   else if \<not> malloc_sort_buffer e ((max_in_memory_size u3 div size_u u3 + 1) * size_u u3)
                     then Some (True, u3, table2\<lparr>sort_io_cache := Some []\<rparr>)
                   else
                     (let merged = merge_many_buff_ok e \<and> file_reinit_ok e \<and> merge_buffers_ok e;
                          outfile = (if merged
                                     then external_merge (merge_le e) (size_u u3) (file u3) (file_ptrs u3)
                                     else partial_output e);
                          error = (\<not> merged \<or> \<not> outfile_flush_ok e \<or> \<not> outfile_reinit_ok e)
                      in Some (error, u3, table2\<lparr>sort_io_cache := Some outfile\<rparr>))))"

subsection \<open>Sequences of operations\<close>

text \<open>
  An instance receives keys and is flushed, in any order. \<open>run_ops\<close> performs a sequence
  of operations and reports whether one of them has failed.
\<close>

datatype 'k op = Put 'k | Flush "'k env"

fun exec_op :: "'k::linorder op \<Rightarrow> 'k Unique \<Rightarrow> bool \<times> 'k Unique" where
  "exec_op (Put key) u = (False, u\<lparr>tree := tree_insert key (tree u)\<rparr>)"
| "exec_op (Flush e) u = flush e u"

fun run_ops :: "'k::linorder op list \<Rightarrow> 'k Unique \<Rightarrow> bool \<times> 'k Unique" where
  "run_ops [] u = (False, u)"
| "run_ops (x # xs) u =
     (case exec_op x u of (failed, u') \<Rightarrow>
        (case run_ops xs u' of (failed', u'') \<Rightarrow> (failed \<or> failed', u'')))"


subsection \<open>Predicates and example values\<close>

text \<open>
  The runs of the directory lie within the file and each is strictly ascending;
  \<open>stored_keys\<close> are the keys of the tree and of all runs.
\<close>

definition runs_ok :: "nat \<Rightarrow> 'k::linorder Unique \<Rightarrow> bool" where
  "runs_ok sz u =
     (\<forall>p \<in> set (file_ptrs u).
        file_pos p div sz + count p \<le> length (file u) \<and> sorted_wrt (<) (read_run sz (file u) p))"

definition stored_keys :: "nat \<Rightarrow> 'k Unique \<Rightarrow> 'k set" where
  "stored_keys sz u = set (tree u) \<union> (\<Union>p \<in> set (file_ptrs u). set (read_run sz (file u) p))"

text \<open>
  The byte range of a run, \<open>sz * count\<close> bytes from \<open>file_pos\<close> on, ends where a later
  run starts or before; and it ends within what has been written.
\<close>

definition non_overlapping :: "nat \<Rightarrow> BUFFPEK list \<Rightarrow> bool" where
  "non_overlapping sz ps = sorted_wrt (\<lambda>p q. file_pos p + sz * count p \<le> file_pos q) ps"

definition within_file :: "'k Unique \<Rightarrow> bool" where
  "within_file u = (\<forall>p \<in> set (file_ptrs u). file_pos p + size_u u * count p \<le> my_b_tell u)"

text \<open>Every step of the merge path of \<^verbatim>\<open>Unique::get\<close> succeeds.\<close>

definition merge_steps_ok :: "'k env \<Rightarrow> 'k Unique \<Rightarrow> bool" where
  "merge_steps_ok e u =
     (length (tree u) \<le> disk_room e \<and> insert_dynamic_ok e \<and> malloc_outfile e
      \<and> open_cached_file_ok e
      \<and> malloc_sort_buffer e ((max_in_memory_size u div size_u u + 1) * size_u u)
      \<and> merge_many_buff_ok e \<and> file_reinit_ok e \<and> merge_buffers_ok e
      \<and> outfile_flush_ok e \<and> outfile_reinit_ok e)"

text \<open>
  A world in which every call succeeds and the merge compares keys as the caller's
  comparator does, and a table with nothing in it.
\<close>

definition all_ok :: "'k::linorder env" where
  "all_ok =
     \<lparr>disk_room = 1000, insert_dynamic_ok = True, malloc_record_pointers = (\<lambda>n. True),
      malloc_outfile = True, open_cached_file_ok = True, malloc_sort_buffer = (\<lambda>n. True),
      merge_many_buff_ok = True, file_reinit_ok = True, merge_buffers_ok = True,
      outfile_flush_ok = True, outfile_reinit_ok = True, partial_output = [],
      merge_le = (\<le>)\<rparr>"

definition empty_table :: "'k TABLE" where
  "empty_table = \<lparr>sort_found_records = 0, sort_record_pointers = None, sort_io_cache = None\<rparr>"

section \<open>Properties of the cost estimator\<close>

declare merge_groups.simps [simp del]
declare merge_passes.simps [simp del]

subsection \<open>The multi-pass loop terminates\<close>

lemma merge_passes_exit: "fst (merge_passes e m b t) < MERGEBUFF2"
proof (induction e m b t rule: merge_passes.induct)
  case (1 e m b t)
  show ?case
  proof (cases "MERGEBUFF2 \<le> m")
    case False
    then show ?thesis
      by (simp add: merge_passes.simps [of e m])
  next
    case True
    obtain m' b' t' where p: "merge_pass e m b t = (m', b', t')"
      by (cases "merge_pass e m b t")
    from "1.IH" [OF True p [symmetric] refl refl] True p show ?thesis
      by (simp add: merge_passes.simps [of e m])
  qed
qed

text \<open>
  Claim C10. Whenever the run count \<^verbatim>\<open>maxbuffer\<close> is at or above \<^verbatim>\<open>MERGEBUFF2\<close>, one pass
  of the simulation, with \<^verbatim>\<open>maxbuffer\<close> updated the way the code updates it
  (\<^verbatim>\<open>(uint)lastbuff-1\<close>), leaves a strictly smaller run count, for every array of
  element counts, element size and cost so far; and the loop, which is a total function,
  ends with a run count below \<^verbatim>\<open>MERGEBUFF2\<close>.
\<close>

theorem merge_many_buffs_loop_terminates:
  "(MERGEBUFF2 \<le> maxbuffer \<longrightarrow>
      fst (merge_pass elem_size maxbuffer buff_elems total_cost) < maxbuffer)
   \<and> fst (merge_passes elem_size maxbuffer buff_elems total_cost) < MERGEBUFF2"
proof (intro conjI impI)
  assume ge: "MERGEBUFF2 \<le> maxbuffer"
  obtain m' b' t' where p: "merge_pass elem_size maxbuffer buff_elems total_cost = (m', b', t')"
    by (cases "merge_pass elem_size maxbuffer buff_elems total_cost")
  from merge_pass_decreases [OF ge p] p
  show "fst (merge_pass elem_size maxbuffer buff_elems total_cost) < maxbuffer"
    by simp
next
  show "fst (merge_passes elem_size maxbuffer buff_elems total_cost) < MERGEBUFF2"
    by (rule merge_passes_exit)
qed

theorem merge_many_buffs_loop_terminates_witness:
  "MERGEBUFF2 \<le> 15
   \<and> fst (merge_pass 4 15 (replicate 15 1 @ [1]) 0) < 15
   \<and> fst (merge_passes 4 15 (replicate 15 1 @ [1]) 0) < MERGEBUFF2"
proof -
  have h: "MERGEBUFF2 \<le> 15"
    by (simp add: MERGEBUFF2_def)
  with merge_many_buffs_loop_terminates [of 15 4 "replicate 15 1 @ [1]" 0]
  show ?thesis
    by blast
qed

subsection \<open>Auxiliary facts about logarithms and the constants\<close>

lemma real_IO_SIZE: "real IO_SIZE = 4096"
  by (simp add: IO_SIZE_def)

lemma ln_8: "ln (8::real) = 3 * ln 2"
proof -
  have "(8::real) = 2 ^ 3"
    by simp
  then have "ln (8::real) = ln (2 ^ 3)"
    by simp
  also have "\<dots> = real 3 * ln 2"
    by (rule ln_realpow)
  finally show ?thesis
    by simp
qed

lemma ln_16: "ln (16::real) = 4 * ln 2"
proof -
  have "(16::real) = 2 ^ 4"
    by simp
  then have "ln (16::real) = ln (2 ^ 4)"
    by simp
  also have "\<dots> = real 4 * ln 2"
    by (rule ln_realpow)
  finally show ?thesis
    by simp
qed

lemma log2_n_fact_expand:
  assumes "0 < x"
  shows "log2_n_fact x = ((ln (2 * pi) + ln x) / 2 + x * (ln x - 1)) / ln 2"
  using assms by (simp add: log2_n_fact_def ln_mult ln_div)

lemma log2_n_fact_4_pos: "0 < log2_n_fact 4"
proof -
  have "1 < 2 * pi * 4"
    using pi_ge_two by simp
  then have "0 < ln (2 * pi * 4)"
    by (rule ln_gt_zero)
  then have a: "0 < ln (2 * pi * 4) / 2"
    by (rule half_gt_zero)
  have "exp (1::real) < 4"
    using exp_le by linarith
  then have "1 < 4 / exp (1::real)"
    by simp
  then have "0 < ln (4 / exp (1::real))"
    by (rule ln_gt_zero)
  then have b: "0 < 4 * ln (4 / exp (1::real))"
    by (rule mult_pos_pos [OF zero_less_numeral])
  from a b have "0 < ln (2 * pi * 4) / 2 + 4 * ln (4 / exp 1)"
    by (rule add_pos_pos)
  then show ?thesis
    unfolding log2_n_fact_def by (simp add: divide_pos_pos)
qed

text \<open>Stirling's formula, as \<^verbatim>\<open>log2_n_fact\<close> computes it, does not decrease from 1 on.\<close>

lemma log2_n_fact_mono:
  assumes "1 \<le> x" and "x \<le> y"
  shows "log2_n_fact x \<le> log2_n_fact y"
proof -
  let ?g = "\<lambda>t::real. (ln (2 * pi) + ln t) / 2 + t * (ln t - 1)"
  have "?g x \<le> ?g y"
  proof (rule DERIV_nonneg_imp_nondecreasing [OF assms(2)])
    fix t :: real
    assume "x \<le> t" and "t \<le> y"
    with assms(1) have t: "1 \<le> t"
      by simp
    then have "(?g has_real_derivative (1 / (2 * t) + ln t)) (at t)"
      by (auto intro!: derivative_eq_intros simp: field_simps)
    moreover from t have "0 \<le> 1 / (2 * t) + ln t"
      by simp
    ultimately show "\<exists>d. (?g has_real_derivative d) (at t) \<and> 0 \<le> d"
      by blast
  qed
  moreover from assms have "0 < x" and "0 < y"
    by simp_all
  ultimately show ?thesis
    by (simp add: log2_n_fact_expand divide_right_mono)
qed

lemma ln_2_ge_half: "1 / 2 \<le> ln (2::real)"
proof -
  have "ln (1 / 2 :: real) \<le> 1 / 2 - 1"
    by (rule ln_le_minus_one) simp
  moreover have "ln (1 / 2 :: real) = - ln 2"
    by (simp add: ln_div)
  ultimately show ?thesis
    by simp
qed

lemma ln_17_le: "ln (17::real) \<le> 4 * ln 2 + 1 / 16"
proof -
  have "ln (17::real) = ln 16 + ln (1 + 1 / 16 :: real)"
    using ln_mult [of 16 "1 + 1 / 16 :: real"] by simp
  also have "\<dots> \<le> 4 * ln 2 + 1 / 16"
    using ln_add_one_self_le_self [of "1 / 16 :: real"] by (simp add: ln_16)
  finally show ?thesis .
qed

lemma ln_2_pi_bounds: "0 \<le> ln (2 * pi)" "ln (2 * pi) \<le> 3 * ln 2"
proof -
  have "1 \<le> 2 * pi"
    using pi_ge_two by simp
  then show "0 \<le> ln (2 * pi)"
    by simp
  have "2 * pi \<le> 8"
    using pi_less_4 by simp
  then have "ln (2 * pi) \<le> ln 8"
    using pi_gt_zero by (intro ln_mono) simp_all
  then show "ln (2 * pi) \<le> 3 * ln 2"
    by (simp add: ln_8)
qed

subsection \<open>The cost of creating the trees\<close>

text \<open>
  Claim C5 (the code differs). The comment of \<^verbatim>\<open>get_use_cost\<close> counts \<open>2*log2((N+1)!)\<close>
  comparisons for every tree, the full ones and the last one. The code doubles the
  term of the last tree only: for all inputs the tree creation cost is
  \<open>(2 * log2_n_fact (last_tree_elems + 1) + n_full_trees * log2_n_fact (max_elems + 1))\<close>
  divided by \<^verbatim>\<open>TIME_FOR_COMPARE_ROWID\<close>. With one full tree of three elements and an empty
  last tree (\<^verbatim>\<open>nkeys = 3\<close>, \<^verbatim>\<open>key_size = 4\<close>, \<^verbatim>\<open>max_in_memory_size = 48\<close>) that is strictly
  less than the documented cost, in which the full tree counts twice as well.
\<close>

theorem tree_creation_cost_counts_full_trees_once:
  "tree_creation_cost n_full_trees max_elems last_tree_elems =
     (2 * log2_n_fact (real last_tree_elems + 1)
        + real n_full_trees * log2_n_fact (real max_elems + 1)) / TIME_FOR_COMPARE_ROWID
   \<and> max_elements_in_tree 4 48 = 3
   \<and> tree_creation_cost 1 3 0
        < (2 * log2_n_fact (0 + 1) + 2 * (1 * log2_n_fact (3 + 1))) / TIME_FOR_COMPARE_ROWID"
proof (intro conjI)
  show "tree_creation_cost n_full_trees max_elems last_tree_elems =
     (2 * log2_n_fact (real last_tree_elems + 1)
        + real n_full_trees * log2_n_fact (real max_elems + 1)) / TIME_FOR_COMPARE_ROWID"
    by (simp add: tree_creation_cost_def Let_def)
  show "max_elements_in_tree 4 48 = 3"
    by (simp add: max_elements_in_tree_def per_element_overhead_def ALIGN_SIZE_def sizeof_TREE_ELEMENT_def)
  show "tree_creation_cost 1 3 0
        < (2 * log2_n_fact (0 + 1) + 2 * (1 * log2_n_fact (3 + 1))) / TIME_FOR_COMPARE_ROWID"
    using log2_n_fact_4_pos
    by (simp add: tree_creation_cost_def TIME_FOR_COMPARE_ROWID_def)
qed

subsection \<open>The cost of writing the trees\<close>

text \<open>
  Claim C6 (the code differs). The write cost is \<^verbatim>\<open>DISK_SEEK_BASE_COST\<close> times a number
  of blocks, and the number of blocks of a tree is the integer quotient of its bytes by
  \<^verbatim>\<open>IO_SIZE\<close>: \<^verbatim>\<open>ceil\<close> is applied to a value that is already an integer. The read cost
  at the end of \<^verbatim>\<open>get_use_cost\<close> converts to \<^verbatim>\<open>double\<close> before it divides; the write
  cost does not. One full tree of 1000 keys of 8 bytes (\<^verbatim>\<open>nkeys = 1000\<close>,
  \<^verbatim>\<open>key_size = 8\<close>, \<^verbatim>\<open>max_in_memory_size = 24000\<close>) is charged one block, where the ceiling
  of the exact quotient 8000 / 4096 is two.
\<close>

theorem trees_write_cost_divides_before_ceil:
  "trees_write_cost key_size n_full_trees max_elems last_tree_elems =
     DISK_SEEK_BASE_COST
       * (real n_full_trees * real (key_size * max_elems mod 2 ^ 32 div IO_SIZE)
           + real (key_size * last_tree_elems mod 2 ^ 32 div IO_SIZE))
   \<and> max_elements_in_tree 8 24000 = 1000
   \<and> trees_write_cost 8 1 1000 0 = DISK_SEEK_BASE_COST * 1
   \<and> \<lceil>real (8 * 1000) / real IO_SIZE\<rceil> = 2"
proof (intro conjI)
  show "trees_write_cost key_size n_full_trees max_elems last_tree_elems =
     DISK_SEEK_BASE_COST
       * (real n_full_trees * real (key_size * max_elems mod 2 ^ 32 div IO_SIZE)
           + real (key_size * last_tree_elems mod 2 ^ 32 div IO_SIZE))"
    by (simp add: trees_write_cost_def algebra_simps)
  show "max_elements_in_tree 8 24000 = 1000"
    by (simp add: max_elements_in_tree_def per_element_overhead_def ALIGN_SIZE_def sizeof_TREE_ELEMENT_def)
  show "trees_write_cost 8 1 1000 0 = DISK_SEEK_BASE_COST * 1"
    by (simp add: trees_write_cost_def IO_SIZE_def)
  show "\<lceil>real (8 * 1000) / real IO_SIZE\<rceil> = 2"
    by (simp add: real_IO_SIZE ceiling_eq_iff)
qed

subsection \<open>The simulation of the merge\<close>

lemma sixteen_runs:
  "replicate 15 (2::nat) @ [1] = [2, 2, 2, 2, 2, 2, 2, 2, 2, 2, 2, 2, 2, 2, 2, 1]"
  by code_simp

text \<open>
  Claim C7 (the code differs). Sixteen runs, fifteen of two elements and one of one
  (\<^verbatim>\<open>maxbuffer = 15\<close>, as \<^verbatim>\<open>get_use_cost\<close> calls the simulation for \<^verbatim>\<open>nkeys = 31\<close>,
  \<^verbatim>\<open>key_size = 4\<close>, \<^verbatim>\<open>max_in_memory_size = 32\<close>). The pass performs two collapses: runs 0
  to 6 (14 elements) and runs 7 to 15 (17 elements). Each sum is written over the last
  run of its group, the array is not compacted, and \<^verbatim>\<open>maxbuffer\<close> becomes
  \<^verbatim>\<open>(uint)lastbuff-1\<close>, which is \<open>2 * sizeof(uint) - 1 = 7\<close>: the pass leaves eight runs,
  not two. The final collapse then reads the entries 0 to 7 of the array, 28 elements
  in 8 runs, where the two runs left by the pass hold 31 elements; its charge is larger
  than that of a final collapse of two runs of 31 elements together.
\<close>

theorem merge_simulation_sixteen_runs:
  "merge_pass 4 15 (replicate 15 2 @ [1]) 0 =
     (7, [2, 2, 2, 2, 2, 2, 14, 2, 2, 2, 2, 2, 2, 2, 2, 17],
      (2 * (14 * 4) / 4096 + 14 * ln 7 / (10 * ln 2))
       + (2 * (17 * 4) / 4096 + 17 * ln 9 / (10 * ln 2)))
   \<and> get_merge_many_buffs_cost 15 2 1 4 =
      (2 * (14 * 4) / 4096 + 14 * ln 7 / (10 * ln 2))
       + (2 * (17 * 4) / 4096 + 17 * ln 9 / (10 * ln 2))
       + (2 * (28 * 4) / 4096 + 28 * ln 8 / (10 * ln 2))
   \<and> get_merge_many_buffs_cost 15 2 1 4 >
      (2 * (14 * 4) / 4096 + 14 * ln 7 / (10 * ln 2))
       + (2 * (17 * 4) / 4096 + 17 * ln 9 / (10 * ln 2))
       + (2 * (31 * 4) / 4096 + 31 * ln 2 / (10 * ln 2))"
proof -
  have p: "merge_pass 4 15 (replicate 15 2 @ [1]) 0 =
     (7, [2, 2, 2, 2, 2, 2, 14, 2, 2, 2, 2, 2, 2, 2, 2, 17],
      (2 * (14 * 4) / 4096 + 14 * ln 7 / (10 * ln 2))
       + (2 * (17 * 4) / 4096 + 17 * ln 9 / (10 * ln 2)))"
    unfolding sixteen_runs
    by (simp add: merge_pass_def merge_groups.simps get_merge_buffers_cost_def MERGEBUFF_def
        sizeof_uint_def real_IO_SIZE TIME_FOR_COMPARE_ROWID_def Let_def)
  have l: "merge_passes 4 15 (replicate 15 2 @ [1]) 0 =
     (7, [2, 2, 2, 2, 2, 2, 14, 2, 2, 2, 2, 2, 2, 2, 2, 17],
      (2 * (14 * 4) / 4096 + 14 * ln 7 / (10 * ln 2))
       + (2 * (17 * 4) / 4096 + 17 * ln 9 / (10 * ln 2)))"
    unfolding sixteen_runs
    by (simp add: merge_passes.simps [of 4 15] merge_passes.simps [of 4 7] MERGEBUFF2_def
        merge_pass_def merge_groups.simps get_merge_buffers_cost_def MERGEBUFF_def
        sizeof_uint_def real_IO_SIZE TIME_FOR_COMPARE_ROWID_def Let_def)
  have g: "get_merge_many_buffs_cost 15 2 1 4 =
      (2 * (14 * 4) / 4096 + 14 * ln 7 / (10 * ln 2))
       + (2 * (17 * 4) / 4096 + 17 * ln 9 / (10 * ln 2))
       + (2 * (28 * 4) / 4096 + 28 * ln 8 / (10 * ln 2))"
    unfolding get_merge_many_buffs_cost_def Let_def l
    by (simp add: get_merge_buffers_cost_def real_IO_SIZE TIME_FOR_COMPARE_ROWID_def)
  have "(2 * (31 * 4) / 4096 + 31 * ln 2 / (10 * ln 2))
          < (2 * (28 * 4) / 4096 + 28 * ln 8 / (10 * ln (2::real)))"
    by (simp add: ln_8)
  with p g show ?thesis
    by simp
qed

subsection \<open>Monotonicity\<close>


lemma ceiling_64th: "\<lceil>1 / 64 :: real\<rceil> = 1"
  by (simp add: ceiling_eq_iff)


lemma get_use_cost_16_4_256:
  "get_use_cost 16 4 256 = Some (tree_creation_cost 1 16 0 + (1 / 32 + 8 / 5) + 1)"
  by (simp add: get_use_cost_def max_elements_in_tree_def per_element_overhead_def ALIGN_SIZE_def sizeof_TREE_ELEMENT_def
      trees_write_cost_def get_merge_many_buffs_cost_def merge_passes.simps MERGEBUFF2_def
      get_merge_buffers_cost_def real_IO_SIZE IO_SIZE_def TIME_FOR_COMPARE_ROWID_def Let_def
      ceiling_64th)

lemma get_use_cost_single_tree:
  assumes "nkeys < max_elements_in_tree key_size mem"
  shows "get_use_cost nkeys key_size mem =
           Some (2 * log2_n_fact (real nkeys + 1) / TIME_FOR_COMPARE_ROWID)"
proof -
  from assms have "per_element_overhead key_size \<noteq> 0"
    by (cases "per_element_overhead key_size = 0") (simp_all add: max_elements_in_tree_def)
  with assms show ?thesis
    by (simp add: get_use_cost_def tree_creation_cost_def Let_def)
qed

lemma get_use_cost_15_4_256: "get_use_cost 15 4 256 = Some (2 * log2_n_fact 16 / 10)"
proof -
  have "15 < max_elements_in_tree 4 256"
    by (simp add: max_elements_in_tree_def per_element_overhead_def ALIGN_SIZE_def
        sizeof_TREE_ELEMENT_def)
  from get_use_cost_single_tree [OF this] show ?thesis
    by (simp add: TIME_FOR_COMPARE_ROWID_def)
qed

lemma log2_n_fact_values:
  "log2_n_fact 1 * ln 2 = ln (2 * pi) / 2 - 1"
  "log2_n_fact 2 * ln 2 = (ln (2 * pi) + ln 2) / 2 + 2 * (ln 2 - 1)"
  "log2_n_fact 16 * ln 2 = (ln (2 * pi) + 4 * ln 2) / 2 + 16 * (4 * ln 2 - 1)"
  "log2_n_fact 17 * ln 2 = (ln (2 * pi) + ln 17) / 2 + 17 * (ln 17 - 1)"
  by (simp_all add: log2_n_fact_expand ln_16)


text \<open>
  The counterexample does not come from the factor that the code leaves out for full
  trees (claim C5): with the documented cost of \<open>2 * log2_n_fact\<close> for every tree, the
  tree of 16 keys and the empty one still cost more than the trees of 15 keys and of one
  key.
\<close>

lemma documented_creation_cost_15_16:
  "2 * log2_n_fact 16 + 2 * log2_n_fact 2 < 2 * log2_n_fact 17 + 2 * log2_n_fact 1"
proof -
  have l17: "4 * ln 2 \<le> ln (17::real)"
    using ln_16 ln_mono [of 16 "17::real"] by simp
  have "(2 * log2_n_fact 16 + 2 * log2_n_fact 2) * ln 2
          < (2 * log2_n_fact 17 + 2 * log2_n_fact 1) * ln 2"
    using l17 ln_2_ge_half unfolding distrib_right mult.assoc log2_n_fact_values by argo
  then show ?thesis
    by simp
qed

text \<open>
  The other half of claim C8, on the number of keys, is a different matter. On the code
  it fails where one more key completes a full tree: with a budget of 256 bytes, 15 keys
  of four bytes stay in one tree and cost \<open>2 * log2_n_fact 16 / 10\<close>, and 16 keys make one
  full tree, which is written, merged and read back, and cost less. The cause is the
  defect of claim C5: the full tree is charged \<open>log2_n_fact 17\<close> once, and charged twice,
  as documented, the 16 keys cost more than the 15. The amended claim therefore says
  nothing about the number of keys.
\<close>

lemma get_use_cost_15_16_keys:
  "the (get_use_cost 16 4 256) < the (get_use_cost 15 4 256)"
  "the (get_use_cost 15 4 256)
     < (2 * log2_n_fact 1 + 2 * (1 * log2_n_fact 17)) / 10 + (1 / 32 + 8 / 5) + 1"
proof -
  have l17: "4 * ln 2 \<le> ln (17::real)"
    using ln_16 ln_mono [of 16 "17::real"] by simp
  have "(2 * log2_n_fact 1 + log2_n_fact 17 + 10 * (1 / 32 + 8 / 5 + 1)) * ln 2
          < (2 * log2_n_fact 16) * ln 2"
    using ln_17_le ln_2_ge_half ln_2_pi_bounds
    unfolding distrib_right mult.assoc log2_n_fact_values by argo
  then have "2 * log2_n_fact 1 + log2_n_fact 17 + 10 * (1 / 32 + 8 / 5 + 1) < 2 * log2_n_fact 16"
    by simp
  then show "the (get_use_cost 16 4 256) < the (get_use_cost 15 4 256)"
    by (simp add: get_use_cost_16_4_256 get_use_cost_15_4_256 tree_creation_cost_def
        TIME_FOR_COMPARE_ROWID_def) argo
  have "(2 * log2_n_fact 16) * ln 2
          < (2 * log2_n_fact 1 + 2 * log2_n_fact 17 + 10 * (1 / 32 + 8 / 5 + 1)) * ln 2"
    using l17 ln_2_ge_half ln_2_pi_bounds
    unfolding distrib_right mult.assoc log2_n_fact_values by argo
  then have "2 * log2_n_fact 16 < 2 * log2_n_fact 1 + 2 * log2_n_fact 17 + 10 * (1 / 32 + 8 / 5 + 1)"
    by simp
  then show "the (get_use_cost 15 4 256)
     < (2 * log2_n_fact 1 + 2 * (1 * log2_n_fact 17)) / 10 + (1 / 32 + 8 / 5) + 1"
    by (simp add: get_use_cost_15_4_256) argo
qed



subsection \<open>The divisor \<^verbatim>\<open>max_elements_in_tree\<close>\<close>

text \<open>
  The 32-bit sums wrap for the largest key sizes. The overhead of an element is 0 for
  exactly the eight key sizes from \<open>2 ^ 32 - 19\<close> to \<open>2 ^ 32 - 12\<close>, and for the largest
  key size it is 16.
\<close>

lemma per_element_overhead_wrapped: "per_element_overhead 4294967295 = 16"
  by (simp add: per_element_overhead_def ALIGN_SIZE_def sizeof_TREE_ELEMENT_def)

lemma per_element_overhead_zero:
  assumes "key_size < 4294967296"
  shows "(per_element_overhead key_size = 0) = (4294967277 \<le> key_size \<and> key_size \<le> 4294967284)"
proof -
  have p: "(2::nat) ^ 32 = 4294967296"
    by simp
  consider (a) "key_size < 4294967277" | (b) "4294967277 \<le> key_size" "key_size < 4294967284"
    | (c) "4294967284 \<le> key_size"
    by linarith
  then show ?thesis
  proof cases
    case a
    then have "(12 + key_size) mod 4294967296 = 12 + key_size"
      and "(12 + key_size + 7) mod 4294967296 = 12 + key_size + 7"
      by simp_all
    with a show ?thesis
      unfolding per_element_overhead_def ALIGN_SIZE_def sizeof_TREE_ELEMENT_def p
      by (simp add: div_eq_0_iff)
  next
    case b
    then have "(12 + key_size) mod 4294967296 = 12 + key_size"
      by simp
    moreover from b have "(12 + key_size + 7) mod 4294967296 = 12 + key_size + 7 - 4294967296"
      by (simp add: mod_if)
    ultimately show ?thesis
      using b unfolding per_element_overhead_def ALIGN_SIZE_def sizeof_TREE_ELEMENT_def p
      by (simp add: div_eq_0_iff)
  next
    case c
    with assms have "(12 + key_size) mod 4294967296 = 12 + key_size - 4294967296"
      by (simp add: mod_if)
    moreover from c assms have "(12 + key_size - 4294967296 + 7) mod 4294967296 = 12 + key_size - 4294967296 + 7"
      by simp
    ultimately show ?thesis
      using c assms unfolding per_element_overhead_def ALIGN_SIZE_def sizeof_TREE_ELEMENT_def p
      by (simp add: div_eq_0_iff) linarith
  qed
qed

text \<open>
  Claim C9 as stated fails, in two ways. A key size of 1 and a memory budget of 1 are
  positive, and \<^verbatim>\<open>max_elements_in_tree\<close> is 0, so \<^verbatim>\<open>get_use_cost\<close> divides by zero. And
  for the key size \<open>2 ^ 32 - 12\<close> the 32-bit sum \<^verbatim>\<open>sizeof(TREE_ELEMENT)+key_size\<close> wraps to
  0, the overhead of an element is 0, and \<^verbatim>\<open>get_use_cost\<close> divides by zero whatever the
  budget is, here the largest one.
\<close>

theorem get_use_cost_budget_below_one_element:
  "(0::nat) < 1 \<and> per_element_overhead 1 = 16 \<and> max_elements_in_tree 1 1 = 0
   \<and> get_use_cost 5 1 1 = None
   \<and> (0::nat) < 4294967284 \<and> (0::nat) < 4294967295
   \<and> per_element_overhead 4294967284 = 0 \<and> get_use_cost 5 4294967284 4294967295 = None"
  by (simp add: get_use_cost_def max_elements_in_tree_def per_element_overhead_def
      ALIGN_SIZE_def sizeof_TREE_ELEMENT_def)

text \<open>
  Claim C9, amended. When the overhead of one element,
  \<^verbatim>\<open>ALIGN_SIZE(sizeof(TREE_ELEMENT)+key_size)\<close> as the code computes it in 32-bit unsigned
  arithmetic, is not zero and is at most the memory budget, the divisor
  \<^verbatim>\<open>max_elements_in_tree\<close> is not zero and \<^verbatim>\<open>get_use_cost\<close> has a result, for every number
  of keys.
\<close>

theorem get_use_cost_defined:
  assumes "per_element_overhead key_size \<noteq> 0"
    and "per_element_overhead key_size \<le> mem"
  shows "max_elements_in_tree key_size mem \<noteq> 0
         \<and> get_use_cost nkeys key_size mem \<noteq> None"
proof -
  from assms have m: "max_elements_in_tree key_size mem \<noteq> 0"
    unfolding max_elements_in_tree_def by (simp add: div_greater_zero_iff)
  with assms(1) show ?thesis
    by (simp add: get_use_cost_def Let_def)
qed

theorem get_use_cost_defined_witness:
  "per_element_overhead 4 \<noteq> 0 \<and> per_element_overhead 4 \<le> 16
   \<and> max_elements_in_tree 4 16 \<noteq> 0 \<and> get_use_cost 5 4 16 \<noteq> None"
proof -
  have a: "per_element_overhead 4 \<noteq> 0" and b: "per_element_overhead 4 \<le> 16"
    by (simp_all add: per_element_overhead_def ALIGN_SIZE_def sizeof_TREE_ELEMENT_def)
  from get_use_cost_defined [OF a b, of 5] a b show ?thesis
    by simp
qed

text \<open>
  The condition of the amended claim is the weakest one: without it \<^verbatim>\<open>get_use_cost\<close>
  divides by zero.
\<close>

lemma get_use_cost_undefined:
  assumes "per_element_overhead key_size = 0 \<or> mem < per_element_overhead key_size"
  shows "get_use_cost nkeys key_size mem = None"
  using assms by (auto simp add: get_use_cost_def max_elements_in_tree_def Let_def)

section \<open>Properties of the class \<^verbatim>\<open>Unique\<close>\<close>

subsection \<open>What the walks and \<^verbatim>\<open>flush\<close> compute\<close>

lemma tree_walk_write_to_ptrs:
  "tree_walk unique_write_to_ptrs ks u = (False, u\<lparr>record_pointers := record_pointers u @ ks\<rparr>)"
  by (induction ks arbitrary: u) (simp_all add: unique_write_to_ptrs_def)

lemma unique_write_to_file_simps:
  "unique_write_to_file k (0, u) = (True, (0, u))"
  "unique_write_to_file k (Suc r, u) = (False, (r, u\<lparr>file := file u @ [k]\<rparr>))"
  by (simp_all add: unique_write_to_file_def)

lemma tree_walk_write_to_file:
  "tree_walk unique_write_to_file ks (room, u) =
     (if length ks \<le> room then (False, (room - length ks, u\<lparr>file := file u @ ks\<rparr>))
      else (True, (0, u\<lparr>file := file u @ take room ks\<rparr>)))"
proof (induction ks arbitrary: room u)
  case Nil
  then show ?case by simp
next
  case (Cons k ks)
  show ?case
  proof (cases room)
    case 0
    then show ?thesis
      by (simp add: unique_write_to_file_simps)
  next
    case (Suc r)
    then show ?thesis
      by (simp add: unique_write_to_file_simps Cons.IH)
  qed
qed

lemma flush_eq:
  "flush e u =
     (if length (tree u) \<le> disk_room e \<and> insert_dynamic_ok e then
        (False, u\<lparr>elements := elements u + length (tree u),
                   file := file u @ tree u,
                   file_ptrs := file_ptrs u @ [\<lparr>file_pos = my_b_tell u, count = length (tree u)\<rparr>],
                   tree := []\<rparr>)
      else
        (True, u\<lparr>elements := elements u + length (tree u),
                  file := file u @ take (disk_room e) (tree u)\<rparr>))"
  by (simp add: flush_def Let_def tree_walk_write_to_file my_b_tell_def)

lemmas eval_simps = Unique_init_def flush_eq tree_insert_def all_ok_def my_b_tell_def
  max_elements_in_tree_def per_element_overhead_def ALIGN_SIZE_def
  sizeof_TREE_ELEMENT_def get_def empty_table_def external_merge_def read_run_def Let_def
  tree_walk_write_to_ptrs

subsection \<open>The runs of the directory\<close>



lemma sorted_tree_insert:
  "sorted_wrt (<) t \<Longrightarrow> sorted_wrt (<) (tree_insert k t)"
  by (simp add: tree_insert_def strict_sorted_iff sorted_insort distinct_insort)

lemma set_tree_insert: "set (tree_insert k t) = insert k (set t)"
  by (simp add: tree_insert_def set_insort_key insert_absorb)







lemma merge_two_Nil [simp]: "merge_two le xs [] = xs"
  by (cases xs) simp_all

lemma set_merge_two: "set (merge_two le xs ys) = set xs \<union> set ys"
  by (induction le xs ys rule: merge_two.induct) auto




text \<open>
  The merge does what the spec asks of it, in its own order: for runs that are ascending
  in the order of the merge, the result is ascending in that order, for every total and
  transitive order.
\<close>

lemma merge_two_ascending:
  "(\<forall>x y. le x y \<or> le y x) \<Longrightarrow> (\<forall>x y z. le x y \<longrightarrow> le y z \<longrightarrow> le x z) \<Longrightarrow>
     sorted_wrt le xs \<Longrightarrow> sorted_wrt le ys \<Longrightarrow> sorted_wrt le (merge_two le xs ys)"
proof (induction le xs ys rule: merge_two.induct)
  case (3 le x xs y ys)
  from "3.prems"(2) have tr: "le a b \<Longrightarrow> le b c \<Longrightarrow> le a c" for a b c
    by blast
  show ?case
  proof (cases "le x y")
    case True
    from "3.prems"(3,4) True have "\<forall>z \<in> set xs \<union> set (y # ys). le x z"
      by (auto intro: tr)
    moreover from True "3.IH"(1) "3.prems" have "sorted_wrt le (merge_two le xs (y # ys))"
      by simp
    ultimately show ?thesis
      using True by (simp add: set_merge_two)
  next
    case False
    with "3.prems"(1) have yx: "le y x"
      by blast
    from "3.prems"(3,4) yx have "\<forall>z \<in> set (x # xs) \<union> set ys. le y z"
      by (auto intro: tr)
    moreover from False "3.IH"(2) "3.prems" have "sorted_wrt le (merge_two le (x # xs) ys)"
      by simp
    ultimately show ?thesis
      using False by (simp add: set_merge_two)
  qed
qed simp_all

lemma sorted_wrt_remdups_adj: "sorted_wrt P xs \<Longrightarrow> sorted_wrt P (remdups_adj xs)"
  by (induction xs rule: remdups_adj.induct) (auto split: if_splits)

lemma external_merge_ascending:
  assumes "\<forall>x y. le x y \<or> le y x" and "\<forall>x y z. le x y \<longrightarrow> le y z \<longrightarrow> le x z"
    and "\<forall>p \<in> set ps. sorted_wrt le (read_run sz f p)"
  shows "sorted_wrt le (external_merge le sz f ps)"
proof -
  have "sorted_wrt le (foldr (merge_two le) (map (read_run sz f) ps) [])"
    using assms(3) by (induction ps) (simp_all add: merge_two_ascending [OF assms(1,2)])
  then show ?thesis
    unfolding external_merge_def by (rule sorted_wrt_remdups_adj)
qed



lemma run_ops_puts:
  "run_ops (map Put ks) u = (failed, u') \<Longrightarrow>
     \<not> failed \<and> file u' = file u \<and> file_ptrs u' = file_ptrs u \<and> elements u' = elements u
     \<and> size_u u' = size_u u \<and> set (tree u') = set (tree u) \<union> set ks
     \<and> (sorted_wrt (<) (tree u) \<longrightarrow> sorted_wrt (<) (tree u'))"
proof (induction ks arbitrary: u failed u')
  case Nil
  then show ?case by auto
next
  case (Cons k ks)
  obtain f2 u2 where r: "run_ops (map Put ks) (u\<lparr>tree := tree_insert k (tree u)\<rparr>) = (f2, u2)"
    by (cases "run_ops (map Put ks) (u\<lparr>tree := tree_insert k (tree u)\<rparr>)")
  with Cons.prems have "failed = f2" and "u' = u2"
    by simp_all
  with Cons.IH [OF r] show ?case
    by (auto simp: set_tree_insert sorted_tree_insert)
qed

subsection \<open>The two paths of \<^verbatim>\<open>Unique::get\<close>\<close>

lemma get_fast_path:
  assumes "my_b_tell u = 0" and "malloc_record_pointers e (size_u u * length (tree u))"
  shows "get e u table =
           Some (False, u\<lparr>record_pointers := tree u\<rparr>,
                 table\<lparr>sort_found_records := elements u + length (tree u),
                       sort_record_pointers := Some (tree u)\<rparr>)"
  using assms by (simp add: get_def Let_def tree_walk_write_to_ptrs)


lemma runs_ok_record_pointers [simp]: "runs_ok sz (u\<lparr>record_pointers := r\<rparr>) = runs_ok sz u"
  by (simp add: runs_ok_def)

lemma stored_keys_record_pointers [simp]:
  "stored_keys sz (u\<lparr>record_pointers := r\<rparr>) = stored_keys sz u"
  by (simp add: stored_keys_def)



lemma external_merge_single_run:
  assumes "0 < sz" and "sorted_wrt (<) (t :: 'k::linorder list)"
  shows "external_merge le sz t [\<lparr>file_pos = 0, count = length t\<rparr>] = t"
  using assms
  by (simp add: external_merge_def read_run_def strict_sorted_iff remdups_adj_distinct)

subsection \<open>The result of \<^verbatim>\<open>Unique::get\<close>\<close>




subsection \<open>The in-memory path\<close>

text \<open>
  Claim C2 as stated fails: no flush has occurred and the directory is empty, but the
  allocation of the memory region fails; \<^verbatim>\<open>Unique::get\<close> then writes the three keys to the
  temporary file and returns no memory region.
\<close>

theorem get_spills_when_allocation_fails:
  "run_ops (map Put [5, 3, 5, 2::nat]) (Unique_init 4 1000) =
     (False, \<lparr>max_in_memory_size = 1000, size_u = 4, elements = 0, max_elements = 62,
              file = [], tree = [2, 3, 5], file_ptrs = [], record_pointers = []\<rparr>)
   \<and> get (all_ok\<lparr>malloc_record_pointers := \<lambda>n. False\<rparr>)
        \<lparr>max_in_memory_size = 1000, size_u = 4, elements = 0, max_elements = 62,
              file = [], tree = [2, 3, 5::nat], file_ptrs = [], record_pointers = []\<rparr> empty_table =
       Some (False,
             \<lparr>max_in_memory_size = 1000, size_u = 4, elements = 3, max_elements = 62,
              file = [2, 3, 5], tree = [], file_ptrs = [\<lparr>file_pos = 0, count = 3\<rparr>],
              record_pointers = []\<rparr>,
             \<lparr>sort_found_records = 3, sort_record_pointers = None,
              sort_io_cache = Some [2, 3, 5]\<rparr>)"
  by (simp add: eval_simps)

text \<open>
  Claim C2, amended. After keys have been put and nothing has been flushed, if the
  allocation of \<open>size * elements_in_tree\<close> bytes succeeds, \<^verbatim>\<open>Unique::get\<close> returns 0 and
  the region holds the keys of the tree, in ascending order, each of the keys put once;
  the object is otherwise unchanged, so nothing is written to the temporary file, which
  is empty.
\<close>

theorem get_without_flush:
  assumes "run_ops (map Put ks) (Unique_init sz mem) = (failed, u)"
    and "malloc_record_pointers e (sz * length (tree u))"
  shows "get e u table =
           Some (False, u\<lparr>record_pointers := tree u\<rparr>,
                 table\<lparr>sort_found_records := length (tree u),
                       sort_record_pointers := Some (tree u)\<rparr>)
         \<and> sorted_wrt (<) (tree u) \<and> set (tree u) = set ks
         \<and> file u = [] \<and> file_ptrs u = []"
proof -
  from run_ops_puts [OF assms(1)]
  have f: "file u = []" and p: "file_ptrs u = []" and el: "elements u = 0" and sz: "size_u u = sz"
    and st: "sorted_wrt (<) (tree u)" and keys: "set (tree u) = set ks"
    by (simp_all add: Unique_init_def)
  from f have "my_b_tell u = 0"
    by (simp add: my_b_tell_def)
  from get_fast_path [OF this, of e table] assms(2) sz el f p st keys show ?thesis
    by simp
qed

theorem get_without_flush_witness:
  "run_ops (map Put [5, 3, 5, 2::nat]) (Unique_init 4 1000) =
     (False, \<lparr>max_in_memory_size = 1000, size_u = 4, elements = 0, max_elements = 62,
              file = [], tree = [2, 3, 5], file_ptrs = [], record_pointers = []\<rparr>)
   \<and> malloc_record_pointers (all_ok :: nat env) (4 * length [2, 3, 5::nat])
   \<and> get all_ok \<lparr>max_in_memory_size = 1000, size_u = 4, elements = 0, max_elements = 62,
              file = [], tree = [2, 3, 5::nat], file_ptrs = [], record_pointers = []\<rparr> empty_table =
       Some (False,
             \<lparr>max_in_memory_size = 1000, size_u = 4, elements = 0, max_elements = 62,
              file = [], tree = [2, 3, 5], file_ptrs = [], record_pointers = [2, 3, 5]\<rparr>,
             \<lparr>sort_found_records = 3, sort_record_pointers = Some [2, 3, 5], sort_io_cache = None\<rparr>)"
proof -
  have a: "run_ops (map Put [5, 3, 5, 2::nat]) (Unique_init 4 1000) =
     (False, \<lparr>max_in_memory_size = 1000, size_u = 4, elements = 0, max_elements = 62,
              file = [], tree = [2, 3, 5], file_ptrs = [], record_pointers = []\<rparr>)"
    by (simp add: eval_simps)
  have b: "malloc_record_pointers (all_ok :: nat env) (4 * length [2, 3, 5::nat])"
    by (simp add: all_ok_def)
  from get_without_flush [OF a, of all_ok empty_table] b
  have c: "get all_ok \<lparr>max_in_memory_size = 1000, size_u = 4, elements = 0, max_elements = 62,
              file = [], tree = [2, 3, 5::nat], file_ptrs = [], record_pointers = []\<rparr> empty_table =
       Some (False,
             \<lparr>max_in_memory_size = 1000, size_u = 4, elements = 0, max_elements = 62,
              file = [], tree = [2, 3, 5], file_ptrs = [], record_pointers = [2, 3, 5]\<rparr>,
             \<lparr>sort_found_records = 3, sort_record_pointers = Some [2, 3, 5], sort_io_cache = None\<rparr>)"
    by (simp add: empty_table_def)
  show ?thesis
    by (intro conjI a b c)
qed

subsection \<open>Allocation failures\<close>

text \<open>
  Claim C3 as stated fails: the allocation of the memory region fails (16 bytes are
  asked for), and \<^verbatim>\<open>Unique::get\<close> flushes the tree, merges the one run and returns 0, with
  the result in the output cache.
\<close>

theorem get_falls_back_to_merge:
  "my_b_tell ((Unique_init 8 4096 :: nat Unique)\<lparr>tree := [10, 20]\<rparr>) = 0
   \<and> \<not> malloc_record_pointers (all_ok\<lparr>malloc_record_pointers := \<lambda>n. n < 16\<rparr> :: nat env) (8 * 2)
   \<and> get (all_ok\<lparr>malloc_record_pointers := \<lambda>n. n < 16\<rparr>)
        ((Unique_init 8 4096)\<lparr>tree := [10, 20::nat]\<rparr>) empty_table =
       Some (False,
             (Unique_init 8 4096)\<lparr>elements := 2, file := [10, 20],
                file_ptrs := [\<lparr>file_pos = 0, count = 2\<rparr>], tree := []\<rparr>,
             \<lparr>sort_found_records = 2, sort_record_pointers = None,
              sort_io_cache = Some [10, 20]\<rparr>)"
  by (simp add: eval_simps)

text \<open>
  Claim C3, amended. With a positive key size: when nothing has been flushed and the
  allocation of the memory region fails, \<^verbatim>\<open>Unique::get\<close> goes on to flush the tree and to
  merge, and if every step of that path succeeds it returns 0 with the keys of the tree
  in the output cache; when the in-memory path is not taken and the allocation of the
  output cache or of the sort buffer fails, it returns 1.
\<close>

theorem get_allocation_failures:
  assumes "0 < size_u u"
  shows "(file u = [] \<and> file_ptrs u = [] \<and> sorted_wrt (<) (tree u)
          \<and> \<not> malloc_record_pointers e (size_u u * length (tree u)) \<and> merge_steps_ok e u
          \<longrightarrow> get e u table =
                Some (False,
                      u\<lparr>record_pointers := [], elements := elements u + length (tree u),
                        file := tree u,
                        file_ptrs := [\<lparr>file_pos = 0, count = length (tree u)\<rparr>], tree := []\<rparr>,
                      table\<lparr>sort_found_records := elements u + length (tree u),
                            sort_record_pointers := None,
                            sort_io_cache := Some (tree u)\<rparr>))
       \<and> (\<not> (my_b_tell u = 0 \<and> malloc_record_pointers e (size_u u * length (tree u)))
          \<and> (\<not> malloc_outfile e
               \<or> \<not> malloc_sort_buffer e ((max_in_memory_size u div size_u u + 1) * size_u u))
          \<longrightarrow> (\<exists>u' table'. get e u table = Some (True, u', table')))"
proof (intro conjI impI)
  assume a: "file u = [] \<and> file_ptrs u = [] \<and> sorted_wrt (<) (tree u)
          \<and> \<not> malloc_record_pointers e (size_u u * length (tree u)) \<and> merge_steps_ok e u"
  then have m: "external_merge le (size_u u) (tree u) [\<lparr>file_pos = 0, count = length (tree u)\<rparr>]
      = tree u" for le
    using assms by (simp add: external_merge_single_run)
  from a assms show "get e u table =
                Some (False,
                      u\<lparr>record_pointers := [], elements := elements u + length (tree u),
                        file := tree u,
                        file_ptrs := [\<lparr>file_pos = 0, count = length (tree u)\<rparr>], tree := []\<rparr>,
                      table\<lparr>sort_found_records := elements u + length (tree u),
                            sort_record_pointers := None,
                            sort_io_cache := Some (tree u)\<rparr>)"
    by (simp add: get_def Let_def flush_eq my_b_tell_def merge_steps_ok_def m)
next
  assume b: "\<not> (my_b_tell u = 0 \<and> malloc_record_pointers e (size_u u * length (tree u)))
          \<and> (\<not> malloc_outfile e
               \<or> \<not> malloc_sort_buffer e ((max_in_memory_size u div size_u u + 1) * size_u u))"
  obtain f u3 where fl: "flush e (if my_b_tell u = 0 then u\<lparr>record_pointers := []\<rparr> else u) = (f, u3)"
    by (cases "flush e (if my_b_tell u = 0 then u\<lparr>record_pointers := []\<rparr> else u)")
  then have "size_u u3 = size_u u \<and> max_in_memory_size u3 = max_in_memory_size u"
    by (auto simp: flush_eq split: if_splits)
  with assms b fl show "\<exists>u' table'. get e u table = Some (True, u', table')"
    by (cases f) (auto simp: get_def Let_def)
qed

theorem get_allocation_failures_witness:
  "0 < size_u ((Unique_init 8 1000 :: nat Unique)\<lparr>tree := [4, 7, 9]\<rparr>)
   \<and> file ((Unique_init 8 1000 :: nat Unique)\<lparr>tree := [4, 7, 9]\<rparr>) = []
   \<and> file_ptrs ((Unique_init 8 1000 :: nat Unique)\<lparr>tree := [4, 7, 9]\<rparr>) = []
   \<and> sorted_wrt (<) (tree ((Unique_init 8 1000 :: nat Unique)\<lparr>tree := [4, 7, 9]\<rparr>))
   \<and> \<not> malloc_record_pointers (all_ok\<lparr>malloc_record_pointers := \<lambda>n. False\<rparr> :: nat env) (8 * 3)
   \<and> merge_steps_ok (all_ok\<lparr>malloc_record_pointers := \<lambda>n. False\<rparr>)
        ((Unique_init 8 1000 :: nat Unique)\<lparr>tree := [4, 7, 9]\<rparr>)
   \<and> get (all_ok\<lparr>malloc_record_pointers := \<lambda>n. False\<rparr>)
        ((Unique_init 8 1000)\<lparr>tree := [4, 7, 9::nat]\<rparr>) empty_table =
       Some (False,
             (Unique_init 8 1000)\<lparr>elements := 3, file := [4, 7, 9],
                file_ptrs := [\<lparr>file_pos = 0, count = 3\<rparr>], tree := []\<rparr>,
             \<lparr>sort_found_records = 3, sort_record_pointers = None,
              sort_io_cache = Some [4, 7, 9]\<rparr>)
   \<and> \<not> malloc_sort_buffer (all_ok\<lparr>malloc_sort_buffer := \<lambda>n. False\<rparr> :: nat env) ((1000 div 8 + 1) * 8)
   \<and> (\<exists>u' table'.
         get (all_ok\<lparr>malloc_sort_buffer := \<lambda>n. False\<rparr>)
           ((Unique_init 8 1000)\<lparr>tree := [4, 7, 9::nat], file := [2, 5],
               file_ptrs := [\<lparr>file_pos = 0, count = 2\<rparr>], elements := 2\<rparr>) empty_table =
         Some (True, u', table'))"
proof -
  let ?u = "(Unique_init 8 1000 :: nat Unique)\<lparr>tree := [4, 7, 9]\<rparr>"
  let ?v = "(Unique_init 8 1000)\<lparr>tree := [4, 7, 9::nat], file := [2, 5],
               file_ptrs := [\<lparr>file_pos = 0, count = 2\<rparr>], elements := 2\<rparr>"
  let ?e = "all_ok\<lparr>malloc_record_pointers := \<lambda>n. False\<rparr> :: nat env"
  let ?f = "all_ok\<lparr>malloc_sort_buffer := \<lambda>n. False\<rparr> :: nat env"
  have s: "0 < size_u ?u" and s': "0 < size_u ?v"
    by (simp_all add: Unique_init_def)
  have a: "file ?u = [] \<and> file_ptrs ?u = [] \<and> sorted_wrt (<) (tree ?u)
          \<and> \<not> malloc_record_pointers ?e (size_u ?u * length (tree ?u)) \<and> merge_steps_ok ?e ?u"
    by (simp add: Unique_init_def all_ok_def merge_steps_ok_def)
  have b: "\<not> (my_b_tell ?v = 0 \<and> malloc_record_pointers ?f (size_u ?v * length (tree ?v)))
          \<and> (\<not> malloc_outfile ?f
               \<or> \<not> malloc_sort_buffer ?f ((max_in_memory_size ?v div size_u ?v + 1) * size_u ?v))"
    by (simp add: Unique_init_def all_ok_def my_b_tell_def)
  from get_allocation_failures [OF s, of ?e empty_table] a
  have c: "get ?e ?u empty_table =
       Some (False,
             (Unique_init 8 1000)\<lparr>elements := 3, file := [4, 7, 9],
                file_ptrs := [\<lparr>file_pos = 0, count = 3\<rparr>], tree := []\<rparr>,
             \<lparr>sort_found_records = 3, sort_record_pointers = None,
              sort_io_cache = Some [4, 7, 9]\<rparr>)"
    by (simp add: Unique_init_def empty_table_def)
  from get_allocation_failures [OF s', of ?f empty_table] b
  have d: "\<exists>u' table'. get ?f ?v empty_table = Some (True, u', table')"
    by blast
  from s a c d show ?thesis
    by (simp add: all_ok_def)
qed

subsection \<open>The directory and the counter \<^verbatim>\<open>elements\<close>\<close>

lemma flush_directory:
  assumes "non_overlapping (size_u u) (file_ptrs u)" and "within_file u"
    and "flush e u = (failed, u')"
  shows "size_u u' = size_u u \<and> non_overlapping (size_u u) (file_ptrs u') \<and> within_file u'
         \<and> (failed \<longrightarrow> file_ptrs u' = file_ptrs u)
         \<and> (\<not> failed \<longrightarrow> sum_list (map count (file_ptrs u')) + elements u
                            = sum_list (map count (file_ptrs u)) + elements u')"
proof (cases "length (tree u) \<le> disk_room e \<and> insert_dynamic_ok e")
  case True
  with assms(3) have u': "u' = u\<lparr>elements := elements u + length (tree u),
      file := file u @ tree u,
      file_ptrs := file_ptrs u @ [\<lparr>file_pos = my_b_tell u, count = length (tree u)\<rparr>],
      tree := []\<rparr>" and f: "\<not> failed"
    by (simp_all add: flush_eq)
  from assms(1,2) show ?thesis
    unfolding u' using f
    by (auto simp: non_overlapping_def within_file_def sorted_wrt_append my_b_tell_def
        algebra_simps)
next
  case False
  with assms(3) have u': "u' = u\<lparr>elements := elements u + length (tree u),
      file := file u @ take (disk_room e) (tree u)\<rparr>" and f: "failed"
    by (auto simp: flush_eq)
  from assms(1,2) show ?thesis
    unfolding u' using f
    by (auto simp: non_overlapping_def within_file_def my_b_tell_def algebra_simps
        intro: trans_le_add1)
qed

lemma directory_inv_run_ops:
  "run_ops xs u = (failed, u') \<Longrightarrow> non_overlapping (size_u u) (file_ptrs u) \<Longrightarrow> within_file u \<Longrightarrow>
     size_u u' = size_u u \<and> non_overlapping (size_u u) (file_ptrs u') \<and> within_file u'
     \<and> (\<not> failed \<longrightarrow> sum_list (map count (file_ptrs u')) + elements u
                        = sum_list (map count (file_ptrs u)) + elements u')"
proof (induction xs arbitrary: u failed u')
  case Nil
  then show ?case by simp
next
  case (Cons x xs)
  obtain f1 u1 where x: "exec_op x u = (f1, u1)"
    by (cases "exec_op x u")
  obtain f2 u2 where r: "run_ops xs u1 = (f2, u2)"
    by (cases "run_ops xs u1")
  from Cons.prems(1) x r have res: "failed = (f1 \<or> f2)" "u' = u2"
    by simp_all
  have 1: "size_u u1 = size_u u \<and> non_overlapping (size_u u) (file_ptrs u1) \<and> within_file u1
         \<and> (\<not> f1 \<longrightarrow> sum_list (map count (file_ptrs u1)) + elements u
                            = sum_list (map count (file_ptrs u)) + elements u1)"
  proof (cases x)
    case (Put k)
    with x Cons.prems(2,3) show ?thesis
      by (auto simp: within_file_def my_b_tell_def)
  next
    case (Flush e)
    with x have "flush e u = (f1, u1)"
      by simp
    from flush_directory [OF Cons.prems(2,3) this] show ?thesis
      by simp
  qed
  then have "non_overlapping (size_u u1) (file_ptrs u1)" and "within_file u1"
    by simp_all
  from Cons.IH [OF r this] 1 show ?case
    unfolding res by auto
qed

text \<open>
  Claim C4 as stated fails: two keys are in the tree and the temporary file has room for
  one. \<^verbatim>\<open>Unique::flush\<close> adds 2 to \<^verbatim>\<open>elements\<close> before it writes, fails at the second key
  and returns 1; the directory is empty, its counts sum to 0, and \<^verbatim>\<open>elements\<close> is 2.
  Besides, a flush of an empty tree appends a descriptor of count 0 at the current
  position, so two descriptors can have the same offset.
\<close>

theorem failed_flush_counts_unwritten_run:
  "run_ops [Put 5, Put 3, Flush (all_ok\<lparr>disk_room := 1\<rparr>)] (Unique_init 8 1000) =
     (True, \<lparr>max_in_memory_size = 1000, size_u = 8, elements = 2, max_elements = 41,
             file = [3], tree = [3, 5::nat], file_ptrs = [], record_pointers = []\<rparr>)
   \<and> sum_list (map count (file_ptrs
        (snd (run_ops [Put 5, Put 3, Flush (all_ok\<lparr>disk_room := 1\<rparr>)]
               (Unique_init 8 1000 :: nat Unique))))) = 0
   \<and> elements (snd (run_ops [Put 5, Put 3, Flush (all_ok\<lparr>disk_room := 1\<rparr>)]
               (Unique_init 8 1000 :: nat Unique))) = 2
   \<and> run_ops [Flush all_ok, Flush all_ok] (Unique_init 8 1000) =
     (False, \<lparr>max_in_memory_size = 1000, size_u = 8, elements = 0, max_elements = 41,
              file = ([] :: nat list), tree = [],
              file_ptrs = [\<lparr>file_pos = 0, count = 0\<rparr>, \<lparr>file_pos = 0, count = 0\<rparr>],
              record_pointers = []\<rparr>)"
  by (simp add: eval_simps)

text \<open>
  Claim C4, amended. After every sequence of operations on a new instance, failed
  flushes included, the byte ranges of the runs of the directory do not overlap and
  follow each other in the order of the directory, within the written part of the
  file; the offsets are strictly increasing when the key size is positive and no run
  is empty; and a flush that fails leaves the directory as it is. When no operation
  has failed, the counts of the directory sum to \<^verbatim>\<open>elements\<close>.
\<close>

theorem run_ops_directory:
  assumes "run_ops xs (Unique_init sz mem) = (failed, u)"
  shows "non_overlapping sz (file_ptrs u)
         \<and> within_file u
         \<and> (0 < sz \<and> (\<forall>p \<in> set (file_ptrs u). 0 < count p)
              \<longrightarrow> sorted_wrt (\<lambda>p q. file_pos p < file_pos q) (file_ptrs u))
         \<and> (\<not> failed \<longrightarrow> sum_list (map count (file_ptrs u)) = elements u)
         \<and> (\<forall>e. fst (flush e u) \<longrightarrow> file_ptrs (snd (flush e u)) = file_ptrs u)"
proof -
  have i: "non_overlapping (size_u (Unique_init sz mem :: 'a Unique)) (file_ptrs (Unique_init sz mem :: 'a Unique))"
    "within_file (Unique_init sz mem :: 'a Unique)"
    by (simp_all add: Unique_init_def non_overlapping_def within_file_def)
  from directory_inv_run_ops [OF assms i]
  have sz: "size_u u = sz" and no: "non_overlapping sz (file_ptrs u)" and wf: "within_file u"
    and sum: "\<not> failed \<longrightarrow> sum_list (map count (file_ptrs u)) = elements u"
    by (simp_all add: Unique_init_def)
  have strict: "sorted_wrt (\<lambda>p q. file_pos p < file_pos q) (file_ptrs u)"
    if "0 < sz" and "\<forall>p \<in> set (file_ptrs u). 0 < count p"
  proof (rule sorted_wrt_mono_rel [OF _ no [unfolded non_overlapping_def]])
    fix p q
    assume "p \<in> set (file_ptrs u)" and "file_pos p + sz * count p \<le> file_pos q"
    with that have "0 < sz * count p"
      by simp
    with \<open>file_pos p + sz * count p \<le> file_pos q\<close> show "file_pos p < file_pos q"
      by linarith
  qed
  have fl: "file_ptrs (snd (flush e u)) = file_ptrs u" if "fst (flush e u)" for e
  proof -
    obtain f u' where x: "flush e u = (f, u')"
      by (cases "flush e u")
    from flush_directory [OF _ wf x] no sz that x show ?thesis
      by simp
  qed
  from no wf sum strict fl show ?thesis
    by blast
qed

theorem run_ops_directory_witness:
  "run_ops [Put 5, Put 3, Flush all_ok, Put 4, Flush all_ok, Put 7] (Unique_init 8 1000) =
     (False, \<lparr>max_in_memory_size = 1000, size_u = 8, elements = 3, max_elements = 41,
              file = [3, 5, 4], tree = [7::nat],
              file_ptrs = [\<lparr>file_pos = 0, count = 2\<rparr>, \<lparr>file_pos = 16, count = 1\<rparr>],
              record_pointers = []\<rparr>)
   \<and> non_overlapping 8 [\<lparr>file_pos = 0, count = 2\<rparr>, \<lparr>file_pos = 16, count = 1\<rparr>]
   \<and> (0::nat) < 8
   \<and> list_all (\<lambda>p. 0 < count p) [\<lparr>file_pos = 0, count = 2\<rparr>, \<lparr>file_pos = 16, count = 1\<rparr>]
   \<and> sorted_wrt (\<lambda>p q. file_pos p < file_pos q)
        [\<lparr>file_pos = 0, count = 2\<rparr>, \<lparr>file_pos = 16, count = 1\<rparr>]
   \<and> sum_list (map count [\<lparr>file_pos = 0, count = 2\<rparr>, \<lparr>file_pos = 16, count = 1\<rparr>]) = 3
   \<and> fst (flush (all_ok\<lparr>disk_room := 0\<rparr>)
        \<lparr>max_in_memory_size = 1000, size_u = 8, elements = 3, max_elements = 41,
              file = [3, 5, 4], tree = [7::nat],
              file_ptrs = [\<lparr>file_pos = 0, count = 2\<rparr>, \<lparr>file_pos = 16, count = 1\<rparr>],
              record_pointers = []\<rparr>)
   \<and> file_ptrs (snd (flush (all_ok\<lparr>disk_room := 0\<rparr>)
        \<lparr>max_in_memory_size = 1000, size_u = 8, elements = 3, max_elements = 41,
              file = [3, 5, 4], tree = [7::nat],
              file_ptrs = [\<lparr>file_pos = 0, count = 2\<rparr>, \<lparr>file_pos = 16, count = 1\<rparr>],
              record_pointers = []\<rparr>)) =
       [\<lparr>file_pos = 0, count = 2\<rparr>, \<lparr>file_pos = 16, count = 1\<rparr>]"
proof -
  let ?u = "\<lparr>max_in_memory_size = 1000, size_u = 8, elements = 3, max_elements = 41,
              file = [3, 5, 4], tree = [7::nat],
              file_ptrs = [\<lparr>file_pos = 0, count = 2\<rparr>, \<lparr>file_pos = 16, count = 1\<rparr>],
              record_pointers = []\<rparr>"
  have a: "run_ops [Put 5, Put 3, Flush all_ok, Put 4, Flush all_ok, Put 7] (Unique_init 8 1000) =
     (False, ?u)"
    by (simp add: eval_simps)
  have b: "(0::nat) < 8"
    and c: "list_all (\<lambda>p. 0 < count p) [\<lparr>file_pos = 0, count = 2\<rparr>, \<lparr>file_pos = 16, count = 1\<rparr>]"
    and d: "fst (flush (all_ok\<lparr>disk_room := 0\<rparr>) ?u)"
    by (simp_all add: eval_simps)
  from run_ops_directory [OF a] b c d
  have "non_overlapping 8 (file_ptrs ?u)
     \<and> sorted_wrt (\<lambda>p q. file_pos p < file_pos q) (file_ptrs ?u)
     \<and> sum_list (map count (file_ptrs ?u)) = elements ?u
     \<and> file_ptrs (snd (flush (all_ok\<lparr>disk_room := 0\<rparr>) ?u)) = file_ptrs ?u"
    by (simp add: list_all_iff)
  with a b c d show ?thesis
    by simp
qed

end
